theory Spec2Isabelle
  imports Complex_Main "HOL-Library.AList"
begin

text \<open>
  The transport core of the ClawToken Python SDK (http.py, exceptions.py) and the
  sync-wait helper of node.py, as functions over an explicit state: what the code calls
  in \<open>httpx\<close>, \<open>urllib.parse\<close>, \<open>time\<close> and \<open>asyncio\<close> is modelled as far as
  the code uses it.
\<close>

section \<open>Python values\<close>

text \<open>
  The values a JSON decoder hands to Python: \<open>null\<close> is \<open>None\<close>, an object is a
  \<open>dict\<close> with string keys. A dict is kept as an association list in insertion order
  and read with \<open>map_of\<close>. Floats are the finite ones.
\<close>

datatype json =
    JNull
  | JBool bool
  | JInt int
  | JFloat real
  | JStr string
  | JArr "json list"
  | JObj "(string \<times> json) list"

text \<open>Truth value of a Python object, as \<open>if x:\<close> tests it.\<close>

fun truthy :: "json \<Rightarrow> bool" where
  "truthy JNull = False"
| "truthy (JBool b) = b"
| "truthy (JInt i) = (i \<noteq> 0)"
| "truthy (JFloat x) = (x \<noteq> 0)"
| "truthy (JStr s) = (s \<noteq> [])"
| "truthy (JArr xs) = (xs \<noteq> [])"
| "truthy (JObj d) = (d \<noteq> [])"

fun isinstance_dict :: "json \<Rightarrow> bool" where
  "isinstance_dict (JObj d) = True"
| "isinstance_dict _ = False"

text \<open>\<open>d.get(k, dflt)\<close>, \<open>d[k] = v\<close> and \<open>d.update(e)\<close> on a dict.\<close>

definition dict_get :: "(string \<times> 'v) list \<Rightarrow> string \<Rightarrow> 'v \<Rightarrow> 'v" where
  "dict_get d k dflt = (case map_of d k of None \<Rightarrow> dflt | Some v \<Rightarrow> v)"

definition dict_set :: "(string \<times> 'v) list \<Rightarrow> string \<Rightarrow> 'v \<Rightarrow> (string \<times> 'v) list" where
  "dict_set d k v = AList.update k v d"

definition dict_update :: "(string \<times> 'v) list \<Rightarrow> (string \<times> 'v) list \<Rightarrow> (string \<times> 'v) list" where
  "dict_update d e = foldl (\<lambda>acc (k, v). dict_set acc k v) d e"

section \<open>Exceptions\<close>

text \<open>\<open>ClawTokenError\<close> of exceptions.py: the message and the three keyword fields.\<close>

record ClawTokenError =
  message :: json
  status :: int
  code :: json
  details :: json

text \<open>
  Everything the modelled code can raise. \<open>TransportError\<close> stands for the exceptions of
  the HTTP library itself (connection refused, DNS failure, request timeout);
  \<open>TimeoutError\<close> carries the timeout its message is built from.
\<close>

datatype exn =
    NodeError ClawTokenError
  | JSONDecodeError
  | AttributeError
  | TimeoutError real
  | ValueError
  | TransportError string

text \<open>\<open>x.get(k, dflt)\<close> on a decoded value: only a dict has the method.\<close>

fun py_get :: "json \<Rightarrow> string \<Rightarrow> json \<Rightarrow> exn + json" where
  "py_get (JObj d) k dflt = Inr (dict_get d k dflt)"
| "py_get _ k dflt = Inl AttributeError"

section \<open>Building the request URL\<close>

text \<open>\<open>s.rstrip(chars)\<close>.\<close>

definition rstrip :: "string \<Rightarrow> string \<Rightarrow> string" where
  "rstrip s chars = rev (dropWhile (\<lambda>c. c \<in> set chars) (rev s))"

text \<open>
  Query values: a scalar, or a sequence of scalars (\<open>urlencode\<close> is called with
  \<open>doseq=True\<close>). Strings are byte strings (UTF-8), which is what \<open>quote\<close> escapes.
\<close>

datatype scalar = SNone | SStr string | SInt int | SBool bool

datatype qvalue = QScalar scalar | QSeq "scalar list"

fun str_nat :: "nat \<Rightarrow> string" where
  "str_nat n =
     (if n < 10 then [''0123456789'' ! n]
      else str_nat (n div 10) @ [''0123456789'' ! (n mod 10)])"

declare str_nat.simps [simp del]

definition str_int :: "int \<Rightarrow> string" where
  "str_int i = (if i < 0 then CHR ''-'' # str_nat (nat (- i)) else str_nat (nat i))"

fun py_str :: "scalar \<Rightarrow> string" where
  "py_str SNone = ''None''"
| "py_str (SStr s) = s"
| "py_str (SInt i) = str_int i"
| "py_str (SBool b) = (if b then ''True'' else ''False'')"

text \<open>\<open>urllib.parse\<close>: the characters never escaped, \<open>quote\<close> and \<open>quote_plus\<close>.\<close>

definition always_safe :: "char \<Rightarrow> bool" where
  "always_safe c \<longleftrightarrow>
     c \<in> set (''ABCDEFGHIJKLMNOPQRSTUVWXYZ'' @ ''abcdefghijklmnopqrstuvwxyz'' @ ''0123456789'' @ ''_.-~'')"

definition hex_digit :: "nat \<Rightarrow> char" where
  "hex_digit n = ''0123456789ABCDEF'' ! (n mod 16)"

definition percent :: "char \<Rightarrow> string" where
  "percent c = [CHR ''%'', hex_digit (of_char c div 16), hex_digit (of_char c mod 16)]"

definition quote :: "string \<Rightarrow> string \<Rightarrow> string" where
  "quote s safe = concat (map (\<lambda>c. if always_safe c \<or> c \<in> set safe then [c] else percent c) s)"

definition quote_plus :: "string \<Rightarrow> string" where
  "quote_plus s =
     (if CHR '' '' \<in> set s
      then map (\<lambda>c. if c = CHR '' '' then CHR ''+'' else c) (quote s '' '')
      else quote s [])"

fun join :: "string \<Rightarrow> string list \<Rightarrow> string" where
  "join sep [] = []"
| "join sep [x] = x"
| "join sep (x # y # ys) = x @ sep @ join sep (y # ys)"

text \<open>The \<open>key=value\<close> pairs one dict item contributes under \<open>doseq=True\<close>.\<close>

fun urlencode_item :: "string \<times> qvalue \<Rightarrow> string list" where
  "urlencode_item (k, QScalar v) = [quote_plus k @ ''='' @ quote_plus (py_str v)]"
| "urlencode_item (k, QSeq vs) = map (\<lambda>elt. quote_plus k @ ''='' @ quote_plus (py_str elt)) vs"

definition urlencode :: "(string \<times> qvalue) list \<Rightarrow> string" where
  "urlencode query = join ''&'' (concat (map urlencode_item query))"

text \<open>\<open>_build_url\<close> of http.py. \<open>if params:\<close> is false for \<open>None\<close> and for the empty dict.\<close>

definition build_url :: "string \<Rightarrow> string \<Rightarrow> (string \<times> qvalue) list option \<Rightarrow> string" where
  "build_url base path params =
     (let url = rstrip base ''/'' @ path in
      case params of
        None \<Rightarrow> url
      | Some ps \<Rightarrow>
          if ps = [] then url
          else
            let filtered = filter (\<lambda>(k, v). v \<noteq> QScalar SNone) ps in
            if filtered \<noteq> [] then url @ ''?'' @ urlencode filtered else url)"

section \<open>Responses and the error mapping\<close>

text \<open>
  What the code reads of an \<open>httpx.Response\<close>: \<open>status_code\<close>, \<open>text\<close> (the
  field \<open>body_text\<close>) and the outcome of \<open>json()\<close>, which is \<open>None\<close> when the
  decoder raises, as it does on an empty body and on any other text that is not JSON.
\<close>

record response =
  status_code :: int
  body_text :: string
  json_body :: "json option"

definition is_success :: "response \<Rightarrow> bool" where
  "is_success resp \<longleftrightarrow> 200 \<le> status_code resp \<and> status_code resp \<le> 299"

definition resp_json :: "response \<Rightarrow> exn + json" where
  "resp_json resp = (case json_body resp of None \<Rightarrow> Inl JSONDecodeError | Some v \<Rightarrow> Inr v)"

text \<open>The two assignments inside the \<open>try\<close> of \<open>_handle_error\<close>.\<close>

definition extract_msg :: "response \<Rightarrow> json \<Rightarrow> exn + json" where
  "extract_msg resp body =
     (if isinstance_dict body
      then (case py_get body ''error'' (JObj []) of
              Inl x \<Rightarrow> Inl x
            | Inr e \<Rightarrow> py_get e ''message'' (JStr (body_text resp)))
      else Inr (JStr (body_text resp)))"

definition extract_code :: "json \<Rightarrow> exn + json" where
  "extract_code body =
     (if isinstance_dict body
      then (case py_get body ''error'' (JObj []) of
              Inl x \<Rightarrow> Inl x
            | Inr e \<Rightarrow> py_get e ''code'' JNull)
      else Inr JNull)"

text \<open>\<open>_handle_error\<close>: any exception inside the \<open>try\<close> gives the fallback pair.\<close>

definition handle_error :: "response \<Rightarrow> exn + unit" where
  "handle_error resp =
     (if is_success resp then Inr ()
      else
        let fallback = (JStr (body_text resp), JNull);
            (msg, cd) =
              (case resp_json resp of
                 Inl x \<Rightarrow> fallback
               | Inr body \<Rightarrow>
                   (case extract_msg resp body of
                      Inl x \<Rightarrow> fallback
                    | Inr m \<Rightarrow>
                        (case extract_code body of
                           Inl x \<Rightarrow> fallback
                         | Inr c \<Rightarrow> (m, c))))
        in Inl (NodeError \<lparr>message = msg, status = status_code resp, code = cd, details = JNull\<rparr>))"

section \<open>The world outside: clock, network, sleeping\<close>

datatype verb = GET | POST | PUT | DELETE

record request =
  req_method :: verb
  req_url :: string
  req_headers :: "(string \<times> string) list"
  req_json :: "json option"
  req_timeout :: real

text \<open>
  The state the code acts on: the monotonic clock, the requests issued so far (oldest
  first) and the sleeps completed so far. The server fixes, for the k-th round trip,
  what comes back for a request and how long it takes.
\<close>

record world =
  clock :: real
  sent :: "request list"
  naps :: "real list"

record server =
  respond :: "nat \<Rightarrow> request \<Rightarrow> exn + response"
  latency :: "nat \<Rightarrow> real"

definition round_trip :: "server \<Rightarrow> request \<Rightarrow> world \<Rightarrow> (exn + response) \<times> world" where
  "round_trip srv req w =
     (let k = length (sent w) in
      (respond srv k req, w\<lparr>clock := clock w + latency srv k, sent := sent w @ [req]\<rparr>))"

section \<open>HttpClient and AsyncHttpClient\<close>

text \<open>
  The fields of a client: \<open>base_url\<close> and what was passed to the \<open>httpx\<close> client
  (timeout and headers). Both classes hold the same data.
\<close>

record http_client =
  base_url :: string
  client_timeout :: real
  client_headers :: "(string \<times> string) list"

definition make_headers :: "string option \<Rightarrow> (string \<times> string) list option \<Rightarrow> (string \<times> string) list" where
  "make_headers api_key headers =
     (let h0 = [(''Content-Type'', ''application/json'')];
          h1 = (case api_key of
                  None \<Rightarrow> h0
                | Some key \<Rightarrow> if key \<noteq> [] then dict_set h0 ''Authorization'' (''Bearer '' @ key) else h0)
      in case headers of
           None \<Rightarrow> h1
         | Some hs \<Rightarrow> if hs \<noteq> [] then dict_update h1 hs else h1)"

definition HttpClient_init ::
  "string \<Rightarrow> real \<Rightarrow> string option \<Rightarrow> (string \<times> string) list option \<Rightarrow> http_client" where
  "HttpClient_init url tmo api_key headers =
     \<lparr>base_url = rstrip url ''/'', client_timeout = tmo, client_headers = make_headers api_key headers\<rparr>"

text \<open>\<open>self._client.get(url)\<close> and its siblings: one round trip with the client's settings.\<close>

definition client_send ::
  "http_client \<Rightarrow> server \<Rightarrow> verb \<Rightarrow> string \<Rightarrow> json option \<Rightarrow> world \<Rightarrow> (exn + response) \<times> world" where
  "client_send c srv m u payload w =
     round_trip srv
       \<lparr>req_method = m, req_url = u, req_headers = client_headers c,
        req_json = payload, req_timeout = client_timeout c\<rparr> w"

text \<open>\<open>_handle_error(resp); return resp.json()\<close>.\<close>

definition checked_json :: "response \<Rightarrow> exn + json" where
  "checked_json resp = (case handle_error resp of Inl e \<Rightarrow> Inl e | Inr u \<Rightarrow> resp_json resp)"

definition HttpClient_get ::
  "http_client \<Rightarrow> server \<Rightarrow> string \<Rightarrow> (string \<times> qvalue) list option \<Rightarrow> world \<Rightarrow> (exn + json) \<times> world" where
  "HttpClient_get c srv path params w =
     (let u = build_url (base_url c) path params;
          (r, w1) = client_send c srv GET u None w
      in (case r of Inl e \<Rightarrow> Inl e | Inr resp \<Rightarrow> checked_json resp, w1))"

definition HttpClient_post ::
  "http_client \<Rightarrow> server \<Rightarrow> string \<Rightarrow> json option \<Rightarrow> world \<Rightarrow> (exn + json) \<times> world" where
  "HttpClient_post c srv path body w =
     (let u = build_url (base_url c) path None;
          (r, w1) = client_send c srv POST u body w
      in (case r of Inl e \<Rightarrow> Inl e | Inr resp \<Rightarrow> checked_json resp, w1))"

definition HttpClient_put ::
  "http_client \<Rightarrow> server \<Rightarrow> string \<Rightarrow> json option \<Rightarrow> world \<Rightarrow> (exn + json) \<times> world" where
  "HttpClient_put c srv path body w =
     (let u = build_url (base_url c) path None;
          (r, w1) = client_send c srv PUT u body w
      in (case r of Inl e \<Rightarrow> Inl e | Inr resp \<Rightarrow> checked_json resp, w1))"

definition HttpClient_delete ::
  "http_client \<Rightarrow> server \<Rightarrow> string \<Rightarrow> (string \<times> qvalue) list option \<Rightarrow> world \<Rightarrow> (exn + json) \<times> world" where
  "HttpClient_delete c srv path params w =
     (let u = build_url (base_url c) path params;
          (r, w1) = client_send c srv DELETE u None w
      in (case r of Inl e \<Rightarrow> Inl e | Inr resp \<Rightarrow> checked_json resp, w1))"

text \<open>The asynchronous client: an awaited call is the same round trip.\<close>

definition AsyncHttpClient_init ::
  "string \<Rightarrow> real \<Rightarrow> string option \<Rightarrow> (string \<times> string) list option \<Rightarrow> http_client" where
  "AsyncHttpClient_init url tmo api_key headers =
     \<lparr>base_url = rstrip url ''/'', client_timeout = tmo, client_headers = make_headers api_key headers\<rparr>"

definition AsyncHttpClient_get ::
  "http_client \<Rightarrow> server \<Rightarrow> string \<Rightarrow> (string \<times> qvalue) list option \<Rightarrow> world \<Rightarrow> (exn + json) \<times> world" where
  "AsyncHttpClient_get c srv path params w =
     (let u = build_url (base_url c) path params;
          (r, w1) = client_send c srv GET u None w
      in (case r of Inl e \<Rightarrow> Inl e | Inr resp \<Rightarrow> checked_json resp, w1))"

definition AsyncHttpClient_post ::
  "http_client \<Rightarrow> server \<Rightarrow> string \<Rightarrow> json option \<Rightarrow> world \<Rightarrow> (exn + json) \<times> world" where
  "AsyncHttpClient_post c srv path body w =
     (let u = build_url (base_url c) path None;
          (r, w1) = client_send c srv POST u body w
      in (case r of Inl e \<Rightarrow> Inl e | Inr resp \<Rightarrow> checked_json resp, w1))"

definition AsyncHttpClient_put ::
  "http_client \<Rightarrow> server \<Rightarrow> string \<Rightarrow> json option \<Rightarrow> world \<Rightarrow> (exn + json) \<times> world" where
  "AsyncHttpClient_put c srv path body w =
     (let u = build_url (base_url c) path None;
          (r, w1) = client_send c srv PUT u body w
      in (case r of Inl e \<Rightarrow> Inl e | Inr resp \<Rightarrow> checked_json resp, w1))"

definition AsyncHttpClient_delete ::
  "http_client \<Rightarrow> server \<Rightarrow> string \<Rightarrow> (string \<times> qvalue) list option \<Rightarrow> world \<Rightarrow> (exn + json) \<times> world" where
  "AsyncHttpClient_delete c srv path params w =
     (let u = build_url (base_url c) path params;
          (r, w1) = client_send c srv DELETE u None w
      in (case r of Inl e \<Rightarrow> Inl e | Inr resp \<Rightarrow> checked_json resp, w1))"

section \<open>NodeApi: waiting for the node to sync\<close>

definition NodeApi_get_status :: "http_client \<Rightarrow> server \<Rightarrow> world \<Rightarrow> (exn + json) \<times> world" where
  "NodeApi_get_status c srv w = HttpClient_get c srv ''/api/node/status'' None w"

definition AsyncNodeApi_get_status :: "http_client \<Rightarrow> server \<Rightarrow> world \<Rightarrow> (exn + json) \<times> world" where
  "AsyncNodeApi_get_status c srv w = AsyncHttpClient_get c srv ''/api/node/status'' None w"

text \<open>
  \<open>time.sleep\<close> refuses a negative length; \<open>asyncio.sleep\<close> with a length that is not
  positive only yields. Times and lengths are real numbers and a sleep that happens lasts
  exactly its length: the rounding of floating-point sums, the non-finite floats and the
  lengths \<open>time.sleep\<close> rejects as too large are not represented, so nothing below
  rests on how long a run of \<open>wait_for_sync\<close> takes.
\<close>

definition time_sleep :: "real \<Rightarrow> world \<Rightarrow> exn + world" where
  "time_sleep secs w =
     (if secs < 0 then Inl ValueError
      else Inr (w\<lparr>clock := clock w + secs, naps := naps w @ [secs]\<rparr>))"

definition asyncio_sleep :: "real \<Rightarrow> world \<Rightarrow> exn + world" where
  "asyncio_sleep delay w =
     (if delay \<le> 0 then Inr (w\<lparr>naps := naps w @ [delay]\<rparr>)
      else Inr (w\<lparr>clock := clock w + delay, naps := naps w @ [delay]\<rparr>))"

text \<open>
  The \<open>while True\<close> loop of \<open>wait_for_sync\<close>, the same in both classes but for the
  status fetch and the sleep, which are its first two arguments. The loop need not end:
  \<open>None\<close> is a run that never returns.
\<close>

partial_function (option) wait_loop ::
  "(world \<Rightarrow> (exn + json) \<times> world) \<Rightarrow> (world \<Rightarrow> exn + world) \<Rightarrow> real \<Rightarrow> real \<Rightarrow> world
     \<Rightarrow> ((exn + json) \<times> world) option"
where
  "wait_loop get_status sleep tmo deadline w =
     (case get_status w of
        (Inl e, w1) \<Rightarrow> Some (Inl e, w1)
      | (Inr st, w1) \<Rightarrow>
          (case py_get st ''synced'' JNull of
             Inl e \<Rightarrow> Some (Inl e, w1)
           | Inr synced \<Rightarrow>
               if truthy synced then Some (Inr st, w1)
               else if clock w1 \<ge> deadline then Some (Inl (TimeoutError tmo), w1)
               else (case sleep w1 of
                       Inl e \<Rightarrow> Some (Inl e, w1)
                     | Inr w2 \<Rightarrow> wait_loop get_status sleep tmo deadline w2)))"

definition NodeApi_wait_for_sync ::
  "http_client \<Rightarrow> server \<Rightarrow> real \<Rightarrow> real \<Rightarrow> world \<Rightarrow> ((exn + json) \<times> world) option" where
  "NodeApi_wait_for_sync c srv interval tmo w =
     (let deadline = clock w + tmo
      in wait_loop (NodeApi_get_status c srv) (time_sleep interval) tmo deadline w)"

definition AsyncNodeApi_wait_for_sync ::
  "http_client \<Rightarrow> server \<Rightarrow> real \<Rightarrow> real \<Rightarrow> world \<Rightarrow> ((exn + json) \<times> world) option" where
  "AsyncNodeApi_wait_for_sync c srv interval tmo w =
     (let deadline = clock w + tmo
      in wait_loop (AsyncNodeApi_get_status c srv) (asyncio_sleep interval) tmo deadline w)"

section \<open>Scenarios of the tests and of the specification\<close>

definition DEFAULT_BASE_URL :: string where
  "DEFAULT_BASE_URL = ''http://127.0.0.1:9528''"

definition DEFAULT_TIMEOUT :: real where
  "DEFAULT_TIMEOUT = 30"

definition fresh_world :: world where
  "fresh_world = \<lparr>clock = 0, sent = [], naps = []\<rparr>"

definition steady_server :: "response \<Rightarrow> real \<Rightarrow> server" where
  "steady_server resp d = \<lparr>respond = (\<lambda>k req. Inr resp), latency = (\<lambda>k. d)\<rparr>"

definition local_client :: http_client where
  "local_client = HttpClient_init DEFAULT_BASE_URL DEFAULT_TIMEOUT None None"

definition not_found_response :: response where
  \<open>not_found_response =
     \<lparr>status_code = 404,
      body_text = ''{"error": {"code": "NOT_FOUND", "message": "Resource not found"}}'',
      json_body = Some (JObj [(''error'',
                    JObj [(''code'', JStr ''NOT_FOUND''), (''message'', JStr ''Resource not found'')])])\<rparr>\<close>

definition code_only_response :: response where
  \<open>code_only_response =
     \<lparr>status_code = 500,
      body_text = ''{"error": {"code": "E_FAIL"}}'',
      json_body = Some (JObj [(''error'', JObj [(''code'', JStr ''E_FAIL'')])])\<rparr>\<close>


definition created_response :: response where
  \<open>created_response =
     \<lparr>status_code = 201,
      body_text = ''{"contractId": "ct-1", "txHash": "tx-1"}'',
      json_body = Some (JObj [(''contractId'', JStr ''ct-1''), (''txHash'', JStr ''tx-1'')])\<rparr>\<close>

definition empty_ok_response :: response where
  "empty_ok_response = \<lparr>status_code = 200, body_text = [], json_body = None\<rparr>"

definition plain_text_response :: response where
  "plain_text_response = \<lparr>status_code = 502, body_text = ''Bad Gateway'', json_body = None\<rparr>"

definition unsynced_response :: response where
  \<open>unsynced_response =
     \<lparr>status_code = 200,
      body_text = ''{"synced": false, "blockHeight": 100}'',
      json_body = Some (JObj [(''synced'', JBool False), (''blockHeight'', JInt 100)])\<rparr>\<close>

definition synced_response :: response where
  \<open>synced_response =
     \<lparr>status_code = 200,
      body_text = ''{"synced": true, "blockHeight": 100}'',
      json_body = Some (JObj [(''synced'', JBool True), (''blockHeight'', JInt 100)])\<rparr>\<close>

definition status_request :: "http_client \<Rightarrow> request" where
  "status_request c =
     \<lparr>req_method = GET, req_url = build_url (base_url c) ''/api/node/status'' None,
      req_headers = client_headers c, req_json = None, req_timeout = client_timeout c\<rparr>"

section \<open>The error mapping\<close>

lemma fst_get:
  "(\<And>req. respond srv (length (sent w)) req = Inr resp) \<Longrightarrow>
   fst (HttpClient_get c srv path params w) = checked_json resp"
  by (simp add: HttpClient_get_def client_send_def round_trip_def Let_def)

lemma fst_post:
  "(\<And>req. respond srv (length (sent w)) req = Inr resp) \<Longrightarrow>
   fst (HttpClient_post c srv path body w) = checked_json resp"
  by (simp add: HttpClient_post_def client_send_def round_trip_def Let_def)

lemma fst_put:
  "(\<And>req. respond srv (length (sent w)) req = Inr resp) \<Longrightarrow>
   fst (HttpClient_put c srv path body w) = checked_json resp"
  by (simp add: HttpClient_put_def client_send_def round_trip_def Let_def)

lemma fst_delete:
  "(\<And>req. respond srv (length (sent w)) req = Inr resp) \<Longrightarrow>
   fst (HttpClient_delete c srv path params w) = checked_json resp"
  by (simp add: HttpClient_delete_def client_send_def round_trip_def Let_def)

lemma checked_json_error:
  assumes "\<not> is_success resp"
    and "json_body resp = Some (JObj d)"
    and "map_of d ''error'' = Some (JObj e)"
    and "map_of e ''code'' = Some C"
    and "map_of e ''message'' = Some M"
  shows "checked_json resp =
           Inl (NodeError \<lparr>message = M, status = status_code resp, code = C, details = JNull\<rparr>)"
  using assms
  by (simp add: checked_json_def handle_error_def resp_json_def extract_msg_def extract_code_def dict_get_def)

text \<open>
  C1. A response outside 2xx whose body decodes to an object with an \<open>error\<close> object
  holding \<open>code\<close> C and \<open>message\<close> M makes each of get, post, put and delete raise
  the node error with the HTTP status, code C and message M. The body
  \<open>{"error": {"code": C, "message": M}}\<close> is the case where the two objects hold nothing
  else.
\<close>

theorem node_error_fields:
  assumes "\<not> is_success resp"
    and "json_body resp = Some (JObj d)"
    and "map_of d ''error'' = Some (JObj e)"
    and "map_of e ''code'' = Some C"
    and "map_of e ''message'' = Some M"
    and "\<And>req. respond srv (length (sent w)) req = Inr resp"
  shows "fst (HttpClient_get c srv path params w) =
           Inl (NodeError \<lparr>message = M, status = status_code resp, code = C, details = JNull\<rparr>)
       \<and> fst (HttpClient_post c srv path body w) =
           Inl (NodeError \<lparr>message = M, status = status_code resp, code = C, details = JNull\<rparr>)
       \<and> fst (HttpClient_put c srv path body w) =
           Inl (NodeError \<lparr>message = M, status = status_code resp, code = C, details = JNull\<rparr>)
       \<and> fst (HttpClient_delete c srv path params w) =
           Inl (NodeError \<lparr>message = M, status = status_code resp, code = C, details = JNull\<rparr>)"
  using assms(6) checked_json_error [OF assms(1-5)]
  by (simp add: fst_get fst_post fst_put fst_delete)

theorem node_error_fields_witness:
  "\<not> is_success not_found_response
   \<and> json_body not_found_response =
       Some (JObj [(''error'', JObj [(''code'', JStr ''NOT_FOUND''), (''message'', JStr ''Resource not found'')])])
   \<and> map_of [(''error'', JObj [(''code'', JStr ''NOT_FOUND''), (''message'', JStr ''Resource not found'')])] ''error''
       = Some (JObj [(''code'', JStr ''NOT_FOUND''), (''message'', JStr ''Resource not found'')])
   \<and> map_of [(''code'', JStr ''NOT_FOUND''), (''message'', JStr ''Resource not found'')] ''code''
       = Some (JStr ''NOT_FOUND'')
   \<and> map_of [(''code'', JStr ''NOT_FOUND''), (''message'', JStr ''Resource not found'')] ''message''
       = Some (JStr ''Resource not found'')
   \<and> (\<forall>req. respond (steady_server not_found_response 0) (length (sent fresh_world)) req
          = Inr not_found_response)
   \<and> fst (HttpClient_get local_client (steady_server not_found_response 0) ''/api/fail'' None fresh_world) =
       Inl (NodeError \<lparr>message = JStr ''Resource not found'', status = 404, code = JStr ''NOT_FOUND'',
                       details = JNull\<rparr>)
   \<and> fst (HttpClient_post local_client (steady_server not_found_response 0) ''/api/fail'' None fresh_world) =
       Inl (NodeError \<lparr>message = JStr ''Resource not found'', status = 404, code = JStr ''NOT_FOUND'',
                       details = JNull\<rparr>)
   \<and> fst (HttpClient_put local_client (steady_server not_found_response 0) ''/api/fail'' None fresh_world) =
       Inl (NodeError \<lparr>message = JStr ''Resource not found'', status = 404, code = JStr ''NOT_FOUND'',
                       details = JNull\<rparr>)
   \<and> fst (HttpClient_delete local_client (steady_server not_found_response 0) ''/api/fail'' None fresh_world) =
       Inl (NodeError \<lparr>message = JStr ''Resource not found'', status = 404, code = JStr ''NOT_FOUND'',
                       details = JNull\<rparr>)"
proof -
  have h1: "\<not> is_success not_found_response"
    by (simp add: is_success_def not_found_response_def)
  have h2: "json_body not_found_response =
       Some (JObj [(''error'', JObj [(''code'', JStr ''NOT_FOUND''), (''message'', JStr ''Resource not found'')])])"
    by (simp add: not_found_response_def)
  have h3: "map_of [(''error'', JObj [(''code'', JStr ''NOT_FOUND''), (''message'', JStr ''Resource not found'')])] ''error''
       = Some (JObj [(''code'', JStr ''NOT_FOUND''), (''message'', JStr ''Resource not found'')])"
    by simp
  have h4: "map_of [(''code'', JStr ''NOT_FOUND''), (''message'', JStr ''Resource not found'')] ''code''
       = Some (JStr ''NOT_FOUND'')"
    by simp
  have h5: "map_of [(''code'', JStr ''NOT_FOUND''), (''message'', JStr ''Resource not found'')] ''message''
       = Some (JStr ''Resource not found'')"
    by simp
  have h6: "\<And>req. respond (steady_server not_found_response 0) (length (sent fresh_world)) req
          = Inr not_found_response"
    by (simp add: steady_server_def)
  have st: "status_code not_found_response = 404"
    by (simp add: not_found_response_def)
  show ?thesis
    using node_error_fields [OF h1 h2 h3 h4 h5 h6, of local_client "''/api/fail''" None None]
      h1 h2 h6 st
    by simp
qed

lemma checked_json_fallback:
  assumes "\<not> is_success resp"
    and "\<forall>d e. json_body resp = Some (JObj d) \<longrightarrow> map_of d ''error'' = Some (JObj e)
            \<longrightarrow> map_of e ''message'' = None"
  shows "\<exists>cd. checked_json resp =
             Inl (NodeError \<lparr>message = JStr (body_text resp), status = status_code resp,
                             code = cd, details = JNull\<rparr>)
           \<and> (cd \<noteq> JNull \<longrightarrow>
                (\<exists>d e. json_body resp = Some (JObj d) \<and> map_of d ''error'' = Some (JObj e)
                       \<and> map_of e ''code'' = Some cd))"
proof (cases "json_body resp")
  case None
  with assms(1) show ?thesis
    by (simp add: checked_json_def handle_error_def resp_json_def)
next
  case (Some body)
  show ?thesis
  proof (cases body)
    case (JObj d)
    show ?thesis
    proof (cases "map_of d ''error''")
      case None
      with assms(1) Some JObj show ?thesis
        by (simp add: checked_json_def handle_error_def resp_json_def extract_msg_def
            extract_code_def dict_get_def)
    next
      case (Some x)
      note err = this
      show ?thesis
      proof (cases x)
        case (JObj e)
        with assms(2) \<open>json_body resp = Some body\<close> \<open>body = JObj d\<close> err
        have nomsg: "map_of e ''message'' = None" by simp
        show ?thesis
          using assms(1) \<open>json_body resp = Some body\<close> \<open>body = JObj d\<close> err JObj nomsg
          by (cases "map_of e ''code''")
             (simp_all add: checked_json_def handle_error_def resp_json_def extract_msg_def
                extract_code_def dict_get_def)
      qed (use assms(1) \<open>json_body resp = Some body\<close> \<open>body = JObj d\<close> err in
            \<open>simp_all add: checked_json_def handle_error_def resp_json_def extract_msg_def
                extract_code_def dict_get_def\<close>)
    qed
  qed (use assms(1) Some in
        \<open>simp_all add: checked_json_def handle_error_def resp_json_def extract_msg_def
            extract_code_def\<close>)
qed

lemma checked_json_fallback_code:
  assumes "\<not> is_success resp"
    and "\<forall>d e. json_body resp = Some (JObj d) \<longrightarrow> map_of d ''error'' = Some (JObj e)
            \<longrightarrow> map_of e ''message'' = None"
    and "(cd = JNull \<and> (\<forall>d e. json_body resp = Some (JObj d) \<longrightarrow> map_of d ''error'' = Some (JObj e)
                         \<longrightarrow> map_of e ''code'' = None))
         \<or> (\<exists>d e. json_body resp = Some (JObj d) \<and> map_of d ''error'' = Some (JObj e)
                  \<and> map_of e ''code'' = Some cd)"
  shows "checked_json resp =
           Inl (NodeError \<lparr>message = JStr (body_text resp), status = status_code resp,
                           code = cd, details = JNull\<rparr>)"
  using assms(3)
proof
  assume a: "cd = JNull \<and> (\<forall>d e. json_body resp = Some (JObj d) \<longrightarrow> map_of d ''error'' = Some (JObj e)
                         \<longrightarrow> map_of e ''code'' = None)"
  from checked_json_fallback [OF assms(1,2)] obtain cd' where
    r: "checked_json resp =
           Inl (NodeError \<lparr>message = JStr (body_text resp), status = status_code resp,
                           code = cd', details = JNull\<rparr>)"
    and c: "cd' \<noteq> JNull \<longrightarrow>
                (\<exists>d e. json_body resp = Some (JObj d) \<and> map_of d ''error'' = Some (JObj e)
                       \<and> map_of e ''code'' = Some cd')"
    by blast
  from a c have "cd' = JNull" by fastforce
  with r a show ?thesis by simp
next
  assume "\<exists>d e. json_body resp = Some (JObj d) \<and> map_of d ''error'' = Some (JObj e)
                  \<and> map_of e ''code'' = Some cd"
  then obtain d e where b: "json_body resp = Some (JObj d)" "map_of d ''error'' = Some (JObj e)"
    "map_of e ''code'' = Some cd"
    by blast
  with assms(2) have "map_of e ''message'' = None" by blast
  with assms(1) b show ?thesis
    by (simp add: checked_json_def handle_error_def resp_json_def extract_msg_def
        extract_code_def dict_get_def)
qed

text \<open>
  C2, with the code read on its own. A response outside 2xx whose body does not decode,
  is not an object, has no \<open>error\<close> object, or whose \<open>error\<close> object has no
  \<open>message\<close>, makes each of get, post, put and delete raise the node error with the
  raw body text as message. Its code is the \<open>code\<close> of the body's \<open>error\<close> object
  when there is one, and \<open>None\<close> when there is none.
\<close>

theorem fallback_message:
  assumes "\<not> is_success resp"
    and "\<forall>d e. json_body resp = Some (JObj d) \<longrightarrow> map_of d ''error'' = Some (JObj e)
            \<longrightarrow> map_of e ''message'' = None"
    and "\<And>req. respond srv (length (sent w)) req = Inr resp"
    and "(cd = JNull \<and> (\<forall>d e. json_body resp = Some (JObj d) \<longrightarrow> map_of d ''error'' = Some (JObj e)
                         \<longrightarrow> map_of e ''code'' = None))
         \<or> (\<exists>d e. json_body resp = Some (JObj d) \<and> map_of d ''error'' = Some (JObj e)
                  \<and> map_of e ''code'' = Some cd)"
  shows "fst (HttpClient_get c srv path params w) =
           Inl (NodeError \<lparr>message = JStr (body_text resp), status = status_code resp,
                           code = cd, details = JNull\<rparr>)
       \<and> fst (HttpClient_post c srv path body w) =
           Inl (NodeError \<lparr>message = JStr (body_text resp), status = status_code resp,
                           code = cd, details = JNull\<rparr>)
       \<and> fst (HttpClient_put c srv path body w) =
           Inl (NodeError \<lparr>message = JStr (body_text resp), status = status_code resp,
                           code = cd, details = JNull\<rparr>)
       \<and> fst (HttpClient_delete c srv path params w) =
           Inl (NodeError \<lparr>message = JStr (body_text resp), status = status_code resp,
                           code = cd, details = JNull\<rparr>)"
  using checked_json_fallback_code [OF assms(1,2,4)] assms(3)
  by (simp add: fst_get fst_post fst_put fst_delete)

theorem fallback_message_witness:
  "\<not> is_success plain_text_response
   \<and> json_body plain_text_response = None
   \<and> fst (HttpClient_get local_client (steady_server plain_text_response 0) ''/api/fail'' None fresh_world) =
       Inl (NodeError \<lparr>message = JStr ''Bad Gateway'', status = 502, code = JNull, details = JNull\<rparr>)
   \<and> \<not> is_success code_only_response
   \<and> json_body code_only_response = Some (JObj [(''error'', JObj [(''code'', JStr ''E_FAIL'')])])
   \<and> fst (HttpClient_post local_client (steady_server code_only_response 0) ''/api/fail'' None fresh_world) =
       Inl (NodeError \<lparr>message = JStr (body_text code_only_response), status = 500,
                       code = JStr ''E_FAIL'', details = JNull\<rparr>)"
proof -
  have p1: "\<not> is_success plain_text_response"
    by (simp add: is_success_def plain_text_response_def)
  have none: "json_body plain_text_response = None"
    by (simp add: plain_text_response_def)
  have p2: "\<forall>d e. json_body plain_text_response = Some (JObj d) \<longrightarrow> map_of d ''error'' = Some (JObj e)
          \<longrightarrow> map_of e ''message'' = None"
    by (simp add: none)
  have p3: "\<And>req. respond (steady_server plain_text_response 0) (length (sent fresh_world)) req
          = Inr plain_text_response"
    by (simp add: steady_server_def)
  have p4: "(JNull = JNull \<and> (\<forall>d e. json_body plain_text_response = Some (JObj d)
                \<longrightarrow> map_of d ''error'' = Some (JObj e) \<longrightarrow> map_of e ''code'' = None))
         \<or> (\<exists>d e. json_body plain_text_response = Some (JObj d) \<and> map_of d ''error'' = Some (JObj e)
                  \<and> map_of e ''code'' = Some JNull)"
    by (simp add: none)
  have st: "status_code plain_text_response = 502" "body_text plain_text_response = ''Bad Gateway''"
    by (simp_all add: plain_text_response_def)
  have q1: "\<not> is_success code_only_response"
    by (simp add: is_success_def code_only_response_def)
  have body: "json_body code_only_response = Some (JObj [(''error'', JObj [(''code'', JStr ''E_FAIL'')])])"
    by (simp add: code_only_response_def)
  have q2: "\<forall>d e. json_body code_only_response = Some (JObj d) \<longrightarrow> map_of d ''error'' = Some (JObj e)
          \<longrightarrow> map_of e ''message'' = None"
    by (auto simp: body)
  have q3: "\<And>req. respond (steady_server code_only_response 0) (length (sent fresh_world)) req
          = Inr code_only_response"
    by (simp add: steady_server_def)
  have q4: "(JStr ''E_FAIL'' = JNull \<and> (\<forall>d e. json_body code_only_response = Some (JObj d)
                \<longrightarrow> map_of d ''error'' = Some (JObj e) \<longrightarrow> map_of e ''code'' = None))
         \<or> (\<exists>d e. json_body code_only_response = Some (JObj d) \<and> map_of d ''error'' = Some (JObj e)
                  \<and> map_of e ''code'' = Some (JStr ''E_FAIL''))"
    by (simp add: body)
  have st2: "status_code code_only_response = 500"
    by (simp add: code_only_response_def)
  note a = fallback_message [OF p1 p2 p3 p4, where c = local_client and path = "''/api/fail''"
      and params = None and body = None]
  note b = fallback_message [OF q1 q2 q3 q4, where c = local_client and path = "''/api/fail''"
      and params = None and body = None]
  from a b p1 none q1 body show ?thesis
    by (simp add: st st2)
qed

text \<open>
  C2 does not hold for every body without \<open>error.message\<close>: for the body
  \<open>{"error": {"code": "E_FAIL"}}\<close> the raised error has the raw text as message but
  the code \<open>"E_FAIL"\<close>, not \<open>None\<close>.
\<close>

theorem code_without_message_counterexample:
  "\<not> is_success code_only_response
   \<and> json_body code_only_response = Some (JObj [(''error'', JObj [(''code'', JStr ''E_FAIL'')])])
   \<and> map_of [(''code'', JStr ''E_FAIL'')] ''message'' = None
   \<and> fst (HttpClient_get local_client (steady_server code_only_response 0) ''/api/fail'' None fresh_world) =
       Inl (NodeError \<lparr>message = JStr (body_text code_only_response), status = 500,
                       code = JStr ''E_FAIL'', details = JNull\<rparr>)
   \<and> code \<lparr>message = JStr (body_text code_only_response), status = 500,
            code = JStr ''E_FAIL'', details = JNull\<rparr> \<noteq> JNull"
  by (simp add: is_success_def code_only_response_def HttpClient_get_def client_send_def
      round_trip_def steady_server_def fresh_world_def checked_json_def handle_error_def
      resp_json_def extract_msg_def extract_code_def dict_get_def Let_def)

text \<open>
  C4. A 2xx response whose body decodes makes each of get, post, put and delete return the
  decoded value itself, and none of them raises.
\<close>

theorem success_returns_decoded:
  assumes "is_success resp"
    and "json_body resp = Some v"
    and "\<And>req. respond srv (length (sent w)) req = Inr resp"
  shows "fst (HttpClient_get c srv path params w) = Inr v
       \<and> fst (HttpClient_post c srv path body w) = Inr v
       \<and> fst (HttpClient_put c srv path body w) = Inr v
       \<and> fst (HttpClient_delete c srv path params w) = Inr v"
  using assms
  by (simp add: fst_get fst_post fst_put fst_delete checked_json_def handle_error_def resp_json_def)

theorem success_returns_decoded_witness:
  "is_success created_response
   \<and> json_body created_response = Some (JObj [(''contractId'', JStr ''ct-1''), (''txHash'', JStr ''tx-1'')])
   \<and> (\<forall>req. respond (steady_server created_response 0) (length (sent fresh_world)) req
          = Inr created_response)
   \<and> fst (HttpClient_post local_client (steady_server created_response 0) ''/api/contracts''
            (Some (JObj [(''title'', JStr ''Job'')])) fresh_world)
       = Inr (JObj [(''contractId'', JStr ''ct-1''), (''txHash'', JStr ''tx-1'')])"
proof -
  have h1: "is_success created_response"
    by (simp add: is_success_def created_response_def)
  have h2: "json_body created_response =
      Some (JObj [(''contractId'', JStr ''ct-1''), (''txHash'', JStr ''tx-1'')])"
    by (simp add: created_response_def)
  have h3: "\<And>req. respond (steady_server created_response 0) (length (sent fresh_world)) req
          = Inr created_response"
    by (simp add: steady_server_def)
  show ?thesis
    using success_returns_decoded [OF h1 h2 h3, of local_client "''/api/contracts''" None
        "Some (JObj [(''title'', JStr ''Job'')])"] h1 h2 h3
    by simp
qed

text \<open>
  C9. A 2xx response whose body does not decode (an empty body is such a body) makes each
  of get, post, put and delete raise the decoder's error: no default value is returned.
\<close>

theorem decode_failure_surfaces:
  assumes "is_success resp"
    and "json_body resp = None"
    and "\<And>req. respond srv (length (sent w)) req = Inr resp"
  shows "fst (HttpClient_get c srv path params w) = Inl JSONDecodeError
       \<and> fst (HttpClient_post c srv path body w) = Inl JSONDecodeError
       \<and> fst (HttpClient_put c srv path body w) = Inl JSONDecodeError
       \<and> fst (HttpClient_delete c srv path params w) = Inl JSONDecodeError"
  using assms
  by (simp add: fst_get fst_post fst_put fst_delete checked_json_def handle_error_def resp_json_def)

theorem decode_failure_surfaces_witness:
  "is_success empty_ok_response
   \<and> json_body empty_ok_response = None
   \<and> (\<forall>req. respond (steady_server empty_ok_response 0) (length (sent fresh_world)) req
          = Inr empty_ok_response)
   \<and> fst (HttpClient_delete local_client (steady_server empty_ok_response 0) ''/api/thing'' None fresh_world)
       = Inl JSONDecodeError"
proof -
  have h1: "is_success empty_ok_response"
    by (simp add: is_success_def empty_ok_response_def)
  have h2: "json_body empty_ok_response = None"
    by (simp add: empty_ok_response_def)
  have h3: "\<And>req. respond (steady_server empty_ok_response 0) (length (sent fresh_world)) req
          = Inr empty_ok_response"
    by (simp add: steady_server_def)
  show ?thesis
    using decode_failure_surfaces [OF h1 h2 h3, of local_client "''/api/thing''" None None] h1 h2 h3
    by simp
qed

section \<open>The request URL\<close>

lemma hex_digit_safe: "always_safe (hex_digit n)"
proof -
  have "n mod 16 < length ''0123456789ABCDEF''" by simp
  then have "hex_digit n \<in> set ''0123456789ABCDEF''"
    unfolding hex_digit_def by (rule nth_mem)
  then show ?thesis by (auto simp: always_safe_def)
qed

lemma quote_chars:
  "c \<in> set (quote s safe) \<Longrightarrow> always_safe c \<or> c \<in> set safe \<or> c = CHR ''%''"
  by (auto simp: quote_def percent_def hex_digit_safe split: if_splits)

lemma quote_plus_chars:
  "c \<in> set (quote_plus s) \<Longrightarrow> always_safe c \<or> c = CHR ''%'' \<or> c = CHR ''+''"
  by (auto simp: quote_plus_def split: if_splits dest: quote_chars)

lemma filter_all_None:
  "\<forall>(k, v) \<in> set ps. v = QScalar SNone \<Longrightarrow> filter (\<lambda>(k, v). v \<noteq> QScalar SNone) ps = []"
  by (induction ps) auto

text \<open>
  C3. The URL is \<open>base\<close> without its trailing slashes, then the path, then the query.
  An absent or empty mapping, or one whose values are all \<open>None\<close>, appends nothing;
  entries whose value is \<open>None\<close> make no difference to the URL; otherwise the query is
  \<open>?\<close> and the \<open>&\<close>-joined pairs of the remaining entries, each key and value
  escaped on its own, so that an escaped key or value holds only unreserved characters,
  \<open>%\<close> and \<open>+\<close>. The mapping \<open>{did: "did:x", address: None}\<close> gives
  \<open>?did=did%3Ax\<close>.
\<close>

theorem build_url_query:
  "build_url base path None = rstrip base ''/'' @ path
   \<and> build_url base path (Some []) = rstrip base ''/'' @ path
   \<and> ((\<forall>(k, v) \<in> set ps. v = QScalar SNone) \<longrightarrow>
        build_url base path (Some ps) = rstrip base ''/'' @ path)
   \<and> build_url base path (Some ps) =
       build_url base path (Some (filter (\<lambda>(k, v). v \<noteq> QScalar SNone) ps))
   \<and> (filter (\<lambda>(k, v). v \<noteq> QScalar SNone) ps \<noteq> [] \<longrightarrow>
        build_url base path (Some ps) =
          rstrip base ''/'' @ path @ ''?'' @
            join ''&'' (concat (map urlencode_item (filter (\<lambda>(k, v). v \<noteq> QScalar SNone) ps))))
   \<and> (\<forall>c \<in> set (quote_plus s). always_safe c \<or> c = CHR ''%'' \<or> c = CHR ''+'')
   \<and> build_url DEFAULT_BASE_URL ''/api/wallet/balance''
         (Some [(''did'', QScalar (SStr ''did:x'')), (''address'', QScalar SNone)])
       = ''http://127.0.0.1:9528/api/wallet/balance?did=did%3Ax''"
proof -
  have ex: "build_url DEFAULT_BASE_URL ''/api/wallet/balance''
         (Some [(''did'', QScalar (SStr ''did:x'')), (''address'', QScalar SNone)])
       = ''http://127.0.0.1:9528/api/wallet/balance?did=did%3Ax''"
    by (simp add: build_url_def DEFAULT_BASE_URL_def rstrip_def urlencode_def quote_plus_def
        quote_def always_safe_def percent_def hex_digit_def)
  have idem: "build_url base path (Some ps) =
       build_url base path (Some (filter (\<lambda>(k, v). v \<noteq> QScalar SNone) ps))"
    by (auto simp: build_url_def Let_def)
  show ?thesis
    using ex idem quote_plus_chars [of _ s]
    by (auto simp: build_url_def urlencode_def Let_def filter_all_None)
qed

theorem build_url_query_witness:
  "build_url ''http://node.example/'' ''/api/node/peers''
     (Some [(''limit'', QScalar SNone), (''offset'', QScalar SNone)])
     = ''http://node.example/api/node/peers''
   \<and> build_url ''http://node.example/'' ''/api/node/peers''
     (Some [(''limit'', QScalar SNone), (''q'', QScalar (SStr ''a b&c'')), (''tag'', QSeq [SStr ''x/y'', SBool True])])
     = ''http://node.example/api/node/peers?q=a+b%26c&tag=x%2Fy&tag=True''"
proof -
  have a: "\<forall>(k, v) \<in> set [(''limit'', QScalar SNone), (''offset'', QScalar SNone)]. v = QScalar SNone"
    by simp
  have b: "filter (\<lambda>(k, v). v \<noteq> QScalar SNone)
        [(''limit'', QScalar SNone), (''q'', QScalar (SStr ''a b&c'')), (''tag'', QSeq [SStr ''x/y'', SBool True])]
      \<noteq> []"
    by simp
  note t1 = build_url_query [of "''http://node.example/''" "''/api/node/peers''"
      "[(''limit'', QScalar SNone), (''offset'', QScalar SNone)]" "[]"]
  note t2 = build_url_query [of "''http://node.example/''" "''/api/node/peers''"
      "[(''limit'', QScalar SNone), (''q'', QScalar (SStr ''a b&c'')), (''tag'', QSeq [SStr ''x/y'', SBool True])]" "[]"]
  from t1 a have 1: "build_url ''http://node.example/'' ''/api/node/peers''
     (Some [(''limit'', QScalar SNone), (''offset'', QScalar SNone)])
     = rstrip ''http://node.example/'' ''/'' @ ''/api/node/peers''"
    by blast
  from t2 b have 2: "build_url ''http://node.example/'' ''/api/node/peers''
     (Some [(''limit'', QScalar SNone), (''q'', QScalar (SStr ''a b&c'')), (''tag'', QSeq [SStr ''x/y'', SBool True])])
     = rstrip ''http://node.example/'' ''/'' @ ''/api/node/peers'' @ ''?'' @
        join ''&'' (concat (map urlencode_item (filter (\<lambda>(k, v). v \<noteq> QScalar SNone)
          [(''limit'', QScalar SNone), (''q'', QScalar (SStr ''a b&c'')), (''tag'', QSeq [SStr ''x/y'', SBool True])])))"
    by blast
  show ?thesis
    unfolding 1 2
    by (simp add: rstrip_def quote_plus_def quote_def always_safe_def percent_def hex_digit_def)
qed

section \<open>Headers\<close>

lemma map_of_dict_update:
  "distinct (map fst e) \<Longrightarrow> map_of (dict_update d e) = map_of d ++ map_of e"
proof (induction e arbitrary: d)
  case Nil
  then show ?case by (simp add: dict_update_def)
next
  case (Cons p e)
  obtain k v where p: "p = (k, v)" by (cases p)
  from Cons.prems p have fresh: "k \<notin> dom (map_of e)" and dist: "distinct (map fst e)"
    by (auto simp: dom_map_of_conv_image_fst)
  have "map_of (dict_update d (p # e)) = map_of (dict_update (dict_set d k v) e)"
    by (simp add: dict_update_def p)
  also have "\<dots> = map_of (dict_set d k v) ++ map_of e"
    using dist by (rule Cons.IH)
  also have "\<dots> = (map_of d)(k \<mapsto> v) ++ map_of e"
    by (simp add: dict_set_def update_conv')
  also have "\<dots> = map_of d ++ map_of (p # e)"
    using fresh by (auto simp: p fun_eq_iff map_add_def split: option.splits)
  finally show ?case .
qed

lemma make_headers_caller_wins:
  assumes "distinct (map fst hs)" and "map_of hs name = Some v"
  shows "map_of (make_headers api_key (Some hs)) name = Some v"
proof -
  from assms(2) have "hs \<noteq> []" by auto
  then show ?thesis
    using assms by (simp add: make_headers_def Let_def map_of_dict_update split: option.splits)
qed

lemma sent_get:
  "sent (snd (HttpClient_get c srv path params w)) =
     sent w @ [\<lparr>req_method = GET, req_url = build_url (base_url c) path params,
                req_headers = client_headers c, req_json = None, req_timeout = client_timeout c\<rparr>]"
  by (simp add: HttpClient_get_def client_send_def round_trip_def Let_def)

lemma sent_post:
  "sent (snd (HttpClient_post c srv path body w)) =
     sent w @ [\<lparr>req_method = POST, req_url = build_url (base_url c) path None,
                req_headers = client_headers c, req_json = body, req_timeout = client_timeout c\<rparr>]"
  by (simp add: HttpClient_post_def client_send_def round_trip_def Let_def)

lemma sent_put:
  "sent (snd (HttpClient_put c srv path body w)) =
     sent w @ [\<lparr>req_method = PUT, req_url = build_url (base_url c) path None,
                req_headers = client_headers c, req_json = body, req_timeout = client_timeout c\<rparr>]"
  by (simp add: HttpClient_put_def client_send_def round_trip_def Let_def)

lemma sent_delete:
  "sent (snd (HttpClient_delete c srv path params w)) =
     sent w @ [\<lparr>req_method = DELETE, req_url = build_url (base_url c) path params,
                req_headers = client_headers c, req_json = None, req_timeout = client_timeout c\<rparr>]"
  by (simp add: HttpClient_delete_def client_send_def round_trip_def Let_def)

lemma async_is_sync:
  "AsyncHttpClient_init = HttpClient_init"
  "AsyncHttpClient_get = HttpClient_get"
  "AsyncHttpClient_post = HttpClient_post"
  "AsyncHttpClient_put = HttpClient_put"
  "AsyncHttpClient_delete = HttpClient_delete"
  by (simp_all add: fun_eq_iff AsyncHttpClient_init_def HttpClient_init_def
      AsyncHttpClient_get_def HttpClient_get_def AsyncHttpClient_post_def HttpClient_post_def
      AsyncHttpClient_put_def HttpClient_put_def AsyncHttpClient_delete_def HttpClient_delete_def)

text \<open>
  C10. With a non-empty api_key and extra headers (a dict, so its keys are distinct) that
  hold the key \<open>Authorization\<close>, the client's \<open>Authorization\<close> header is the
  caller's value, and so is the one on the request each of get, post, put and delete
  issues, in both clients; a caller's \<open>Content-Type\<close> replaces the default in the
  same way.
\<close>

theorem caller_authorization_wins:
  assumes "key \<noteq> []"
    and "distinct (map fst hs)"
    and "map_of hs ''Authorization'' = Some v"
  shows "map_of (client_headers (HttpClient_init url tmo (Some key) (Some hs))) ''Authorization'' = Some v
       \<and> map_of (req_headers (last (sent (snd
            (HttpClient_get (HttpClient_init url tmo (Some key) (Some hs)) srv path params w)))))
            ''Authorization'' = Some v
       \<and> map_of (req_headers (last (sent (snd
            (HttpClient_post (HttpClient_init url tmo (Some key) (Some hs)) srv path body w)))))
            ''Authorization'' = Some v
       \<and> map_of (req_headers (last (sent (snd
            (HttpClient_put (HttpClient_init url tmo (Some key) (Some hs)) srv path body w)))))
            ''Authorization'' = Some v
       \<and> map_of (req_headers (last (sent (snd
            (HttpClient_delete (HttpClient_init url tmo (Some key) (Some hs)) srv path params w)))))
            ''Authorization'' = Some v
       \<and> map_of (client_headers (AsyncHttpClient_init url tmo (Some key) (Some hs))) ''Authorization'' = Some v
       \<and> map_of (req_headers (last (sent (snd
            (AsyncHttpClient_get (AsyncHttpClient_init url tmo (Some key) (Some hs)) srv path params w)))))
            ''Authorization'' = Some v
       \<and> map_of (req_headers (last (sent (snd
            (AsyncHttpClient_post (AsyncHttpClient_init url tmo (Some key) (Some hs)) srv path body w)))))
            ''Authorization'' = Some v
       \<and> map_of (req_headers (last (sent (snd
            (AsyncHttpClient_put (AsyncHttpClient_init url tmo (Some key) (Some hs)) srv path body w)))))
            ''Authorization'' = Some v
       \<and> map_of (req_headers (last (sent (snd
            (AsyncHttpClient_delete (AsyncHttpClient_init url tmo (Some key) (Some hs)) srv path params w)))))
            ''Authorization'' = Some v
       \<and> (\<forall>t. map_of hs ''Content-Type'' = Some t \<longrightarrow>
            map_of (client_headers (HttpClient_init url tmo (Some key) (Some hs))) ''Content-Type'' = Some t)"
  using make_headers_caller_wins [OF assms(2,3)] make_headers_caller_wins [OF assms(2)]
  by (simp add: async_is_sync sent_get sent_post sent_put sent_delete HttpClient_init_def)

theorem caller_authorization_wins_witness:
  "map_of (client_headers (HttpClient_init DEFAULT_BASE_URL DEFAULT_TIMEOUT (Some ''secret'')
            (Some [(''Authorization'', ''Basic abc''), (''Content-Type'', ''text/plain'')])))
      ''Authorization'' = Some ''Basic abc''
   \<and> client_headers (HttpClient_init DEFAULT_BASE_URL DEFAULT_TIMEOUT (Some ''secret'')
            (Some [(''Authorization'', ''Basic abc''), (''Content-Type'', ''text/plain'')]))
      = [(''Content-Type'', ''text/plain''), (''Authorization'', ''Basic abc'')]
   \<and> client_headers (HttpClient_init DEFAULT_BASE_URL DEFAULT_TIMEOUT (Some ''secret'') None)
      = [(''Content-Type'', ''application/json''), (''Authorization'', ''Bearer secret'')]"
proof -
  have h1: "''secret'' \<noteq> []" by simp
  have h2: "distinct (map fst [(''Authorization'', ''Basic abc''), (''Content-Type'', ''text/plain'')])"
    by simp
  have h3: "map_of [(''Authorization'', ''Basic abc''), (''Content-Type'', ''text/plain'')] ''Authorization''
      = Some ''Basic abc''"
    by simp
  have rest: "client_headers (HttpClient_init DEFAULT_BASE_URL DEFAULT_TIMEOUT (Some ''secret'')
            (Some [(''Authorization'', ''Basic abc''), (''Content-Type'', ''text/plain'')]))
      = [(''Content-Type'', ''text/plain''), (''Authorization'', ''Basic abc'')]"
    "client_headers (HttpClient_init DEFAULT_BASE_URL DEFAULT_TIMEOUT (Some ''secret'') None)
      = [(''Content-Type'', ''application/json''), (''Authorization'', ''Bearer secret'')]"
    by (simp_all add: HttpClient_init_def make_headers_def dict_update_def dict_set_def)
  from caller_authorization_wins [OF h1 h2 h3, of DEFAULT_BASE_URL DEFAULT_TIMEOUT]
  have "map_of (client_headers (HttpClient_init DEFAULT_BASE_URL DEFAULT_TIMEOUT (Some ''secret'')
            (Some [(''Authorization'', ''Basic abc''), (''Content-Type'', ''text/plain'')])))
      ''Authorization'' = Some ''Basic abc''"
    by blast
  with rest show ?thesis by blast
qed

section \<open>The two clients\<close>

text \<open>
  C8. For every configuration, path, query mapping, body, server and starting state, the
  asynchronous client is built as the synchronous one is, and each of its four operations
  returns or raises the same result and leaves the same state, hence has issued the same
  request (URL, headers, body) and applied the same error mapping.
\<close>

theorem async_client_refines_sync:
  "AsyncHttpClient_init url tmo api_key hs = HttpClient_init url tmo api_key hs
   \<and> AsyncHttpClient_get (AsyncHttpClient_init url tmo api_key hs) srv path params w =
       HttpClient_get (HttpClient_init url tmo api_key hs) srv path params w
   \<and> AsyncHttpClient_post (AsyncHttpClient_init url tmo api_key hs) srv path body w =
       HttpClient_post (HttpClient_init url tmo api_key hs) srv path body w
   \<and> AsyncHttpClient_put (AsyncHttpClient_init url tmo api_key hs) srv path body w =
       HttpClient_put (HttpClient_init url tmo api_key hs) srv path body w
   \<and> AsyncHttpClient_delete (AsyncHttpClient_init url tmo api_key hs) srv path params w =
       HttpClient_delete (HttpClient_init url tmo api_key hs) srv path params w"
  by (simp add: AsyncHttpClient_init_def HttpClient_init_def
      AsyncHttpClient_get_def HttpClient_get_def AsyncHttpClient_post_def HttpClient_post_def
      AsyncHttpClient_put_def HttpClient_put_def AsyncHttpClient_delete_def HttpClient_delete_def)

section \<open>Waiting for sync\<close>

lemma wait_loop_fetches:
  assumes "wait_loop fetch nap tmo dl w = Some y"
    and "\<And>w r w1. fetch w = (r, w1) \<Longrightarrow> length (sent w1) = Suc (length (sent w))"
    and "\<And>w w2. nap w = Inr w2 \<Longrightarrow> sent w2 = sent w"
  shows "length (sent w) < length (sent (snd y))"
  using assms(2,3)
proof (induction fetch nap tmo dl w y rule: wait_loop.raw_induct)
  case (1 loop fetch nap tmo dl w y)
  obtain r w1 where f: "fetch w = (r, w1)" by (cases "fetch w")
  then have len: "length (sent w1) = Suc (length (sent w))" by (rule "1.prems"(1))
  from "1.hyps" have "snd y = w1 \<or> (\<exists>w2. nap w1 = Inr w2 \<and> loop fetch nap tmo dl w2 = Some y)"
    by (auto simp: f split: sum.splits if_splits)
  then show ?case
  proof
    assume "snd y = w1"
    with len show ?thesis by simp
  next
    assume "\<exists>w2. nap w1 = Inr w2 \<and> loop fetch nap tmo dl w2 = Some y"
    then obtain w2 where n: "nap w1 = Inr w2" and l: "loop fetch nap tmo dl w2 = Some y" by blast
    from l have "length (sent w2) < length (sent (snd y))"
      using "1.prems" by (rule "1.IH")
    moreover from n have "sent w2 = sent w1" by (rule "1.prems"(2))
    ultimately show ?thesis using len by simp
  qed
qed fact

lemma NodeApi_get_status_eq:
  "NodeApi_get_status c srv w =
     (case respond srv (length (sent w)) (status_request c) of
        Inl e \<Rightarrow> Inl e | Inr resp \<Rightarrow> checked_json resp,
      w\<lparr>clock := clock w + latency srv (length (sent w)), sent := sent w @ [status_request c]\<rparr>)"
  by (simp add: NodeApi_get_status_def HttpClient_get_def client_send_def round_trip_def
      status_request_def Let_def)

lemma AsyncNodeApi_get_status_eq:
  "AsyncNodeApi_get_status c srv w =
     (case respond srv (length (sent w)) (status_request c) of
        Inl e \<Rightarrow> Inl e | Inr resp \<Rightarrow> checked_json resp,
      w\<lparr>clock := clock w + latency srv (length (sent w)), sent := sent w @ [status_request c]\<rparr>)"
  by (simp add: AsyncNodeApi_get_status_def AsyncHttpClient_get_def client_send_def round_trip_def
      status_request_def Let_def)

lemma checked_json_ok:
  "is_success resp \<Longrightarrow> json_body resp = Some v \<Longrightarrow> checked_json resp = Inr v"
  by (simp add: checked_json_def handle_error_def resp_json_def)

lemma wait_loop_synced:
  assumes "fetch w = (Inr (JObj d), w1)" and "truthy (dict_get d ''synced'' JNull)"
  shows "wait_loop fetch nap tmo dl w = Some (Inr (JObj d), w1)"
  by (subst wait_loop.simps) (simp add: assms)

lemma wait_loop_expired:
  assumes "fetch w = (Inr (JObj d), w1)" and "\<not> truthy (dict_get d ''synced'' JNull)"
    and "dl \<le> clock w1"
  shows "wait_loop fetch nap tmo dl w = Some (Inl (TimeoutError tmo), w1)"
  by (subst wait_loop.simps) (simp add: assms)

lemma wait_loop_again:
  assumes "fetch w = (Inr (JObj d), w1)" and "\<not> truthy (dict_get d ''synced'' JNull)"
    and "\<not> dl \<le> clock w1" and "nap w1 = Inr w2"
  shows "wait_loop fetch nap tmo dl w = wait_loop fetch nap tmo dl w2"
  by (subst wait_loop.simps) (simp add: assms)

text \<open>
  C5. If the first status fetch reports synced, \<open>wait_for_sync\<close> returns that status,
  whatever the interval and the timeout: one request has been issued and no sleep has
  been taken. Both classes.
\<close>

theorem already_synced_returns_at_once:
  assumes "\<And>req. respond srv (length (sent w)) req = Inr resp"
    and "is_success resp"
    and "json_body resp = Some (JObj d)"
    and "truthy (dict_get d ''synced'' JNull)"
  shows "(\<exists>w'. NodeApi_wait_for_sync c srv interval tmo w = Some (Inr (JObj d), w')
            \<and> sent w' = sent w @ [status_request c] \<and> naps w' = naps w)
       \<and> (\<exists>w'. AsyncNodeApi_wait_for_sync c srv interval tmo w = Some (Inr (JObj d), w')
            \<and> sent w' = sent w @ [status_request c] \<and> naps w' = naps w)"
proof -
  let ?w1 = "w\<lparr>clock := clock w + latency srv (length (sent w)), sent := sent w @ [status_request c]\<rparr>"
  have ok: "checked_json resp = Inr (JObj d)"
    using assms(2,3) by (rule checked_json_ok)
  have "NodeApi_get_status c srv w = (Inr (JObj d), ?w1)"
    by (simp add: NodeApi_get_status_eq assms(1) ok)
  then have 1: "NodeApi_wait_for_sync c srv interval tmo w = Some (Inr (JObj d), ?w1)"
    unfolding NodeApi_wait_for_sync_def Let_def using assms(4) by (rule wait_loop_synced)
  have "AsyncNodeApi_get_status c srv w = (Inr (JObj d), ?w1)"
    by (simp add: AsyncNodeApi_get_status_eq assms(1) ok)
  then have 2: "AsyncNodeApi_wait_for_sync c srv interval tmo w = Some (Inr (JObj d), ?w1)"
    unfolding AsyncNodeApi_wait_for_sync_def Let_def using assms(4) by (rule wait_loop_synced)
  from 1 2 show ?thesis by simp
qed

theorem already_synced_returns_at_once_witness:
  "(\<forall>req. respond (steady_server synced_response 1) (length (sent fresh_world)) req = Inr synced_response)
   \<and> is_success synced_response
   \<and> json_body synced_response = Some (JObj [(''synced'', JBool True), (''blockHeight'', JInt 100)])
   \<and> truthy (dict_get [(''synced'', JBool True), (''blockHeight'', JInt 100)] ''synced'' JNull)
   \<and> (\<exists>w'. NodeApi_wait_for_sync local_client (steady_server synced_response 1) 2 5 fresh_world
              = Some (Inr (JObj [(''synced'', JBool True), (''blockHeight'', JInt 100)]), w')
            \<and> sent w' = [status_request local_client] \<and> naps w' = [])
   \<and> (\<exists>w'. AsyncNodeApi_wait_for_sync local_client (steady_server synced_response 1) 2 5 fresh_world
              = Some (Inr (JObj [(''synced'', JBool True), (''blockHeight'', JInt 100)]), w')
            \<and> sent w' = [status_request local_client] \<and> naps w' = [])"
proof -
  have h1: "\<And>req. respond (steady_server synced_response 1) (length (sent fresh_world)) req
      = Inr synced_response"
    by (simp add: steady_server_def)
  have h2: "is_success synced_response"
    by (simp add: is_success_def synced_response_def)
  have h3: "json_body synced_response = Some (JObj [(''synced'', JBool True), (''blockHeight'', JInt 100)])"
    by (simp add: synced_response_def)
  have h4: "truthy (dict_get [(''synced'', JBool True), (''blockHeight'', JInt 100)] ''synced'' JNull)"
    by (simp add: dict_get_def)
  have w: "sent fresh_world = []" "naps fresh_world = []"
    by (simp_all add: fresh_world_def)
  show ?thesis
    using already_synced_returns_at_once [OF h1 h2 h3 h4, of local_client 2 5] h1 h2 h3 h4
    by (simp add: w)
qed

lemma unsynced_status:
  "NodeApi_get_status c (steady_server unsynced_response lat) w =
     (Inr (JObj [(''synced'', JBool False), (''blockHeight'', JInt 100)]),
      w\<lparr>clock := clock w + lat, sent := sent w @ [status_request c]\<rparr>)"
  "AsyncNodeApi_get_status c (steady_server unsynced_response lat) w =
     (Inr (JObj [(''synced'', JBool False), (''blockHeight'', JInt 100)]),
      w\<lparr>clock := clock w + lat, sent := sent w @ [status_request c]\<rparr>)"
  by (simp_all add: NodeApi_get_status_eq AsyncNodeApi_get_status_eq steady_server_def
      checked_json_ok is_success_def unsynced_response_def)

lemma unsynced_flag:
  "\<not> truthy (dict_get [(''synced'', JBool False), (''blockHeight'', JInt 100)] ''synced'' JNull)"
  by (simp add: dict_get_def)

lemma get_status_one_request:
  "NodeApi_get_status c srv w = (r, w1) \<Longrightarrow> length (sent w1) = Suc (length (sent w))"
  "AsyncNodeApi_get_status c srv w = (r, w1) \<Longrightarrow> length (sent w1) = Suc (length (sent w))"
  by (auto simp: NodeApi_get_status_eq AsyncNodeApi_get_status_eq)

lemma sleeps_keep_sent:
  "time_sleep secs w = Inr w2 \<Longrightarrow> sent w2 = sent w"
  "asyncio_sleep secs w = Inr w2 \<Longrightarrow> sent w2 = sent w"
  by (auto simp: time_sleep_def asyncio_sleep_def split: if_splits)

text \<open>
  C7, with at least one attempt in place of exactly one. \<open>wait_for_sync\<close> never
  raises its timeout failure before a status fetch has been issued: whatever the timeout
  and the interval, a run that ends in the timeout failure has issued at least one
  request. With a timeout of zero or less (and a fetch that does not take negative time)
  an unsynced first answer gives the failure after exactly one request and no sleep. Both
  classes.
\<close>

theorem timeout_only_after_a_fetch:
  "(NodeApi_wait_for_sync c srv interval tmo w = Some (Inl (TimeoutError t), w')
      \<longrightarrow> length (sent w) < length (sent w'))
   \<and> (AsyncNodeApi_wait_for_sync c srv interval tmo w = Some (Inl (TimeoutError t), w')
      \<longrightarrow> length (sent w) < length (sent w'))
   \<and> (tmo \<le> 0 \<and> 0 \<le> latency srv (length (sent w))
        \<and> (\<forall>req. respond srv (length (sent w)) req = Inr resp)
        \<and> is_success resp \<and> json_body resp = Some (JObj d)
        \<and> \<not> truthy (dict_get d ''synced'' JNull)
      \<longrightarrow> NodeApi_wait_for_sync c srv interval tmo w =
            Some (Inl (TimeoutError tmo),
                  w\<lparr>clock := clock w + latency srv (length (sent w)),
                    sent := sent w @ [status_request c]\<rparr>)
        \<and> AsyncNodeApi_wait_for_sync c srv interval tmo w =
            Some (Inl (TimeoutError tmo),
                  w\<lparr>clock := clock w + latency srv (length (sent w)),
                    sent := sent w @ [status_request c]\<rparr>))"
proof (intro conjI impI)
  assume "NodeApi_wait_for_sync c srv interval tmo w = Some (Inl (TimeoutError t), w')"
  then have "wait_loop (NodeApi_get_status c srv) (time_sleep interval) tmo (clock w + tmo) w
      = Some (Inl (TimeoutError t), w')"
    by (simp add: NodeApi_wait_for_sync_def Let_def)
  then have "length (sent w) < length (sent (snd (Inl (TimeoutError t) :: exn + json, w')))"
    by (rule wait_loop_fetches) (erule get_status_one_request sleeps_keep_sent)+
  then show "length (sent w) < length (sent w')" by simp
next
  assume "AsyncNodeApi_wait_for_sync c srv interval tmo w = Some (Inl (TimeoutError t), w')"
  then have "wait_loop (AsyncNodeApi_get_status c srv) (asyncio_sleep interval) tmo (clock w + tmo) w
      = Some (Inl (TimeoutError t), w')"
    by (simp add: AsyncNodeApi_wait_for_sync_def Let_def)
  then have "length (sent w) < length (sent (snd (Inl (TimeoutError t) :: exn + json, w')))"
    by (rule wait_loop_fetches) (erule get_status_one_request sleeps_keep_sent)+
  then show "length (sent w) < length (sent w')" by simp
next
  let ?w1 = "w\<lparr>clock := clock w + latency srv (length (sent w)), sent := sent w @ [status_request c]\<rparr>"
  assume a: "tmo \<le> 0 \<and> 0 \<le> latency srv (length (sent w))
        \<and> (\<forall>req. respond srv (length (sent w)) req = Inr resp)
        \<and> is_success resp \<and> json_body resp = Some (JObj d)
        \<and> \<not> truthy (dict_get d ''synced'' JNull)"
  then have ok: "checked_json resp = Inr (JObj d)"
    by (simp add: checked_json_ok)
  from a have u: "\<not> truthy (dict_get d ''synced'' JNull)" by simp
  from a have late: "clock w + tmo \<le> clock ?w1" by simp
  have "NodeApi_get_status c srv w = (Inr (JObj d), ?w1)"
    using a by (simp add: NodeApi_get_status_eq ok)
  then show "NodeApi_wait_for_sync c srv interval tmo w = Some (Inl (TimeoutError tmo), ?w1)"
    unfolding NodeApi_wait_for_sync_def Let_def using u late by (rule wait_loop_expired)
  have "AsyncNodeApi_get_status c srv w = (Inr (JObj d), ?w1)"
    using a by (simp add: AsyncNodeApi_get_status_eq ok)
  then show "AsyncNodeApi_wait_for_sync c srv interval tmo w = Some (Inl (TimeoutError tmo), ?w1)"
    unfolding AsyncNodeApi_wait_for_sync_def Let_def using u late by (rule wait_loop_expired)
qed

theorem timeout_only_after_a_fetch_witness:
  "NodeApi_wait_for_sync local_client (steady_server unsynced_response 1) 2 0 fresh_world
     = Some (Inl (TimeoutError 0), \<lparr>clock = 1, sent = [status_request local_client], naps = []\<rparr>)
   \<and> AsyncNodeApi_wait_for_sync local_client (steady_server unsynced_response 1) 2 0 fresh_world
     = Some (Inl (TimeoutError 0), \<lparr>clock = 1, sent = [status_request local_client], naps = []\<rparr>)
   \<and> length (sent fresh_world)
       < length (sent \<lparr>clock = 1, sent = [status_request local_client], naps = []\<rparr>)"
proof -
  let ?srv = "steady_server unsynced_response 1"
  let ?w1 = "\<lparr>clock = 1, sent = [status_request local_client], naps = []\<rparr>"
  let ?d = "[(''synced'', JBool False), (''blockHeight'', JInt 100)]"
  note t = timeout_only_after_a_fetch [where c = local_client and srv = ?srv and interval = 2
      and tmo = 0 and w = fresh_world and t = 0 and w' = ?w1 and resp = unsynced_response
      and d = ?d]
  have hyp: "(0::real) \<le> 0 \<and> 0 \<le> latency ?srv (length (sent fresh_world))
        \<and> (\<forall>req. respond ?srv (length (sent fresh_world)) req = Inr unsynced_response)
        \<and> is_success unsynced_response \<and> json_body unsynced_response = Some (JObj ?d)
        \<and> \<not> truthy (dict_get ?d ''synced'' JNull)"
    by (simp add: steady_server_def is_success_def unsynced_response_def dict_get_def)
  have w1: "fresh_world\<lparr>clock := clock fresh_world + latency ?srv (length (sent fresh_world)),
      sent := sent fresh_world @ [status_request local_client]\<rparr> = ?w1"
    by (simp add: fresh_world_def steady_server_def)
  from t hyp have run:
    "NodeApi_wait_for_sync local_client ?srv 2 0 fresh_world = Some (Inl (TimeoutError 0), ?w1)"
    "AsyncNodeApi_wait_for_sync local_client ?srv 2 0 fresh_world = Some (Inl (TimeoutError 0), ?w1)"
    unfolding w1 by blast+
  from t run(1) have "length (sent fresh_world) < length (sent ?w1)"
    by blast
  with run show ?thesis by blast
qed

text \<open>
  C7 does not hold with exactly one attempt: with a timeout of 5, below the interval of
  10, and fetches that take 1, the timeout failure is raised after two status fetches.
\<close>

theorem two_fetches_before_timeout_counterexample:
  "(5::real) < 10
   \<and> NodeApi_wait_for_sync local_client (steady_server unsynced_response 1) 10 5 fresh_world
     = Some (Inl (TimeoutError 5),
             \<lparr>clock = 12, sent = [status_request local_client, status_request local_client],
              naps = [10]\<rparr>)
   \<and> length (sent \<lparr>clock = 12, sent = [status_request local_client, status_request local_client],
              naps = [10]\<rparr>) = 2"
proof -
  let ?srv = "steady_server unsynced_response 1"
  let ?d = "[(''synced'', JBool False), (''blockHeight'', JInt 100)]"
  let ?w1 = "\<lparr>clock = 1, sent = [status_request local_client], naps = []\<rparr>"
  let ?w2 = "\<lparr>clock = 11, sent = [status_request local_client], naps = [10]\<rparr>"
  let ?w3 = "\<lparr>clock = 12, sent = [status_request local_client, status_request local_client],
              naps = [10]\<rparr>"
  have f1: "NodeApi_get_status local_client ?srv fresh_world = (Inr (JObj ?d), ?w1)"
    by (simp add: unsynced_status fresh_world_def)
  have f2: "NodeApi_get_status local_client ?srv ?w2 = (Inr (JObj ?d), ?w3)"
    by (simp add: unsynced_status)
  have n: "time_sleep 10 ?w1 = Inr ?w2"
    by (simp add: time_sleep_def)
  have "wait_loop (NodeApi_get_status local_client ?srv) (time_sleep 10) 5 (clock fresh_world + 5) fresh_world
      = wait_loop (NodeApi_get_status local_client ?srv) (time_sleep 10) 5 (clock fresh_world + 5) ?w2"
    by (rule wait_loop_again [where fetch = "NodeApi_get_status local_client ?srv"
          and nap = "time_sleep 10" and w = fresh_world, OF f1 unsynced_flag _ n])
      (simp add: fresh_world_def)
  also have "\<dots> = Some (Inl (TimeoutError 5), ?w3)"
    by (rule wait_loop_expired [where fetch = "NodeApi_get_status local_client ?srv"
          and w = ?w2, OF f2 unsynced_flag]) (simp add: fresh_world_def)
  finally show ?thesis
    by (simp add: NodeApi_wait_for_sync_def Let_def)
qed

end
